theory Spec2Isabelle
  imports Complex_Main
begin

section \<open>The drawing context\<close>

text \<open>
  The script \<^verbatim>\<open>template/index.js\<close> talks to a \<^verbatim>\<open>CanvasRenderingContext2D\<close>
  that the browser provides. The context is modelled as a recording object: every method
  call and every assignment to \<^verbatim>\<open>fillStyle\<close> that it receives is appended to
  \<open>calls\<close>, oldest first, and the properties hold the value assigned last. JavaScript
  numbers are modelled as real numbers: rounding, infinities and NaN are not represented
  (NaN appears only as a possible value of \<^verbatim>\<open>window.devicePixelRatio\<close> below).
\<close>

datatype canvas_op =
    BeginPath
  | MoveTo real real
  | LineTo real real
  | Arc real real real real real
  | Stroke
  | Fill
  | Set_fillStyle string
  | ClearRect real real real real
  | Scale real real

record ctx =
  calls :: "canvas_op list"
  fillStyle :: string
  strokeStyle :: string

definition call :: "canvas_op \<Rightarrow> 'a ctx_scheme \<Rightarrow> 'a ctx_scheme" where
  "call op this = this\<lparr>calls := calls this @ [op]\<rparr>"

definition beginPath :: "'a ctx_scheme \<Rightarrow> 'a ctx_scheme" where
  "beginPath = call BeginPath"

definition moveTo :: "real \<Rightarrow> real \<Rightarrow> 'a ctx_scheme \<Rightarrow> 'a ctx_scheme" where
  "moveTo x y = call (MoveTo x y)"

definition lineTo :: "real \<Rightarrow> real \<Rightarrow> 'a ctx_scheme \<Rightarrow> 'a ctx_scheme" where
  "lineTo x y = call (LineTo x y)"

definition arc :: "real \<Rightarrow> real \<Rightarrow> real \<Rightarrow> real \<Rightarrow> real \<Rightarrow> 'a ctx_scheme \<Rightarrow> 'a ctx_scheme" where
  "arc x y radius startAngle endAngle = call (Arc x y radius startAngle endAngle)"

definition stroke :: "'a ctx_scheme \<Rightarrow> 'a ctx_scheme" where
  "stroke = call Stroke"

definition fill :: "'a ctx_scheme \<Rightarrow> 'a ctx_scheme" where
  "fill = call Fill"

definition clearRect :: "real \<Rightarrow> real \<Rightarrow> real \<Rightarrow> real \<Rightarrow> 'a ctx_scheme \<Rightarrow> 'a ctx_scheme" where
  "clearRect x y w h = call (ClearRect x y w h)"

definition scale :: "real \<Rightarrow> real \<Rightarrow> 'a ctx_scheme \<Rightarrow> 'a ctx_scheme" where
  "scale sx sy = call (Scale sx sy)"

definition set_fillStyle :: "string \<Rightarrow> 'a ctx_scheme \<Rightarrow> 'a ctx_scheme" where
  "set_fillStyle colour this = call (Set_fillStyle colour) (this\<lparr>fillStyle := colour\<rparr>)"

text \<open>A block of statements on one object, executed from the first to the last.\<close>

definition statements :: "('s \<Rightarrow> 's) list \<Rightarrow> 's \<Rightarrow> 's" where
  "statements stmts this = fold (\<lambda>stmt. stmt) stmts this"

section \<open>The two drawing helpers\<close>

text \<open>
  \<^verbatim>\<open>CanvasRenderingContext2D.prototype.drawTriangle\<close> (lines 74 to 96) and
  \<^verbatim>\<open>CanvasRenderingContext2D.prototype.drawCircle\<close> (lines 98 to 115). The receiver
  \<^verbatim>\<open>this\<close> is the last argument; the parameter \<^verbatim>\<open>size\<close> is written \<open>size'\<close>.
\<close>

definition drawTriangle :: "real \<Rightarrow> real \<Rightarrow> real \<Rightarrow> real \<Rightarrow> 'a ctx_scheme \<Rightarrow> 'a ctx_scheme" where
  "drawTriangle x y size' rotation =
     statements
      [beginPath,
       moveTo
         (x - sin rotation * size' * 1.5)
         (y + cos rotation * size' * 1.5),
       lineTo
         (x - sin (rotation + 2.0 / 3.0 * pi) * size')
         (y + cos (rotation + 2.0 / 3.0 * pi) * size'),
       lineTo
         (x - sin (rotation + 4.0 / 3.0 * pi) * size')
         (y + cos (rotation + 4.0 / 3.0 * pi) * size'),
       lineTo
         (x - sin rotation * size' * 1.5)
         (y + cos rotation * size' * 1.5),
       stroke,
       set_fillStyle ''rgb(255, 255, 255)'',
       fill]"

definition drawCircle :: "real \<Rightarrow> real \<Rightarrow> real \<Rightarrow> 'a ctx_scheme \<Rightarrow> 'a ctx_scheme" where
  "drawCircle x y radius =
     statements
      [beginPath,
       arc x y radius 0 (2.0 * pi),
       set_fillStyle ''rgb(0, 255, 128)'',
       fill]"

section \<open>The page, the simulation and the state of the script\<close>

text \<open>
  \<^verbatim>\<open>window.devicePixelRatio\<close> is a number, or is missing in a browser that does not
  know the property. \<open>or_number v d\<close> is \<^verbatim>\<open>v || d\<close> for a number \<open>d\<close>: a truthy
  \<open>v\<close> is the result, anything else gives \<open>d\<close>.
\<close>

datatype js_value = Undefined | NaN | Number real

fun truthy :: "js_value \<Rightarrow> bool" where
  "truthy Undefined = False"
| "truthy NaN = False"
| "truthy (Number r) = (r \<noteq> 0)"

fun or_number :: "js_value \<Rightarrow> real \<Rightarrow> real" where
  "or_number (Number r) d = (if r \<noteq> 0 then r else d)"
| "or_number Undefined d = d"
| "or_number NaN d = d"

text \<open>
  The function assigned to \<^verbatim>\<open>onclick\<close> (lines 5 to 7) and the function handed to
  \<^verbatim>\<open>requestAnimationFrame\<close> (line 143).
\<close>

datatype handler = Log_train

datatype callback = Redraw

text \<open>
  An element of the page, with what the script touches. The properties \<^verbatim>\<open>width\<close>
  and \<^verbatim>\<open>height\<close> of a canvas are of type \<^verbatim>\<open>unsigned long\<close> and reflect the
  content attributes of the same name, which hold a whole number or are missing:
  \<^item> reading the property gives the number in the attribute when there is one and it is
    at most 2147483647, and the default otherwise, 300 for the width and 150 for the
    height;
  \<^item> assigning a number to the property converts it to \<^verbatim>\<open>unsigned long\<close>, which
    drops the fraction (towards zero) and reduces the result modulo \<open>2 ^ 32\<close>, and
    stores that in the attribute when it is at most 2147483647, and the default otherwise.
\<close>

record element =
  onclick :: "handler option"
  width_attribute :: "nat option"
  height_attribute :: "nat option"
  style_width :: string
  style_height :: string

definition reflected :: "nat \<Rightarrow> nat option \<Rightarrow> nat" where
  "reflected default_value attribute =
     (case attribute of
        None \<Rightarrow> default_value
      | Some n \<Rightarrow> if n \<le> 2147483647 then n else default_value)"

definition width :: "element \<Rightarrow> nat" where
  "width e = reflected 300 (width_attribute e)"

definition height :: "element \<Rightarrow> nat" where
  "height e = reflected 150 (height_attribute e)"

definition to_unsigned_long :: "real \<Rightarrow> nat" where
  "to_unsigned_long x = nat ((if x < 0 then \<lceil>x\<rceil> else \<lfloor>x\<rfloor>) mod 2 ^ 32)"

definition reflect :: "nat \<Rightarrow> nat \<Rightarrow> nat option" where
  "reflect default_value n = Some (if n \<le> 2147483647 then n else default_value)"

definition set_width :: "real \<Rightarrow> element \<Rightarrow> element" where
  "set_width x e = e\<lparr>width_attribute := reflect 300 (to_unsigned_long x)\<rparr>"

definition set_height :: "real \<Rightarrow> element \<Rightarrow> element" where
  "set_height x e = e\<lparr>height_attribute := reflect 150 (to_unsigned_long x)\<rparr>"

text \<open>
  What the browser answers: \<^verbatim>\<open>document.getElementById\<close> (\<open>None\<close> is
  \<^verbatim>\<open>null\<close>), \<^verbatim>\<open>getContext('2d')\<close> on an element (\<open>None\<close> when there is no
  2D context), \<^verbatim>\<open>window.devicePixelRatio\<close>, and the conversion of a number to a
  string that \<^verbatim>\<open>viewportWidth + 'px'\<close> performs.
\<close>

record host =
  getElementById :: "string \<Rightarrow> element option"
  getContext_2d :: "element \<Rightarrow> ctx option"
  devicePixelRatio :: js_value
  number_toString :: "real \<Rightarrow> string"

text \<open>
  The snapshots that \<^verbatim>\<open>simulation.world()\<close> returns, and the interface of
  \<^verbatim>\<open>lib-simulation-wasm\<close>, which is not part of the script: the constructor,
  \<^verbatim>\<open>train()\<close>, \<^verbatim>\<open>world()\<close> and \<^verbatim>\<open>step()\<close> over an opaque simulation
  state \<open>'sim\<close>. The fields \<^verbatim>\<open>x\<close>, \<^verbatim>\<open>y\<close>, \<^verbatim>\<open>rotation\<close> carry the
  name of their object as a prefix.
\<close>

record food =
  food_x :: real
  food_y :: real

record animal =
  animal_x :: real
  animal_y :: real
  animal_rotation :: real

record world_snapshot =
  foods :: "food list"
  animals :: "animal list"

record 'sim sim_api =
  new_Simulation :: 'sim
  train :: "'sim \<Rightarrow> string \<times> 'sim"
  world :: "'sim \<Rightarrow> world_snapshot"
  step :: "'sim \<Rightarrow> 'sim"

text \<open>
  The objects and constants the script holds after lines 3 to 69, the lines printed by
  \<^verbatim>\<open>console.log\<close>, and the callbacks waiting for the next animation frame.
\<close>

record 'sim state =
  simulation :: 'sim
  train_element :: element
  viewport :: element
  ctxt :: ctx
  viewportWidth :: real
  viewportHeight :: real
  viewportScale :: real
  console :: "string list"
  animation_frame_requests :: "callback list"

datatype null_receiver = Train_onclick | Viewport_getContext | Ctxt_scale

datatype error = TypeError null_receiver

section \<open>The render loop\<close>

text \<open>
  \<^verbatim>\<open>for (const v of vs) body\<close>. The body is handed the object \<open>v\<close> and the state it
  works on, and returns the object as it leaves it.
\<close>

fun for_of :: "('a \<Rightarrow> 's \<Rightarrow> 'a \<times> 's) \<Rightarrow> 'a list \<Rightarrow> 's \<Rightarrow> 'a list \<times> 's" where
  "for_of body [] s = ([], s)"
| "for_of body (v # vs) s =
     (case body v s of (v', s') \<Rightarrow>
        case for_of body vs s' of (vs', s'') \<Rightarrow> (v' # vs', s''))"

text \<open>The two loops of \<^verbatim>\<open>redraw\<close>, lines 122 to 128 and lines 130 to 137.\<close>

definition redraw_foods ::
  "real \<Rightarrow> real \<Rightarrow> 'f food_scheme list \<Rightarrow> 'c ctx_scheme \<Rightarrow> 'f food_scheme list \<times> 'c ctx_scheme" where
  "redraw_foods viewportWidth' viewportHeight' =
     for_of (\<lambda>food this.
       (food,
        drawCircle
          (food_x food * viewportWidth')
          (food_y food * viewportHeight')
          ((0.01 / 2.0) * viewportWidth')
          this))"

definition redraw_animals ::
  "real \<Rightarrow> real \<Rightarrow> 'a animal_scheme list \<Rightarrow> 'c ctx_scheme \<Rightarrow> 'a animal_scheme list \<times> 'c ctx_scheme" where
  "redraw_animals viewportWidth' viewportHeight' =
     for_of (\<lambda>animal this.
       (animal,
        drawTriangle
          (animal_x animal * viewportWidth')
          (animal_y animal * viewportHeight')
          (0.01 * viewportWidth')
          (animal_rotation animal)
          this))"

definition on_ctxt :: "(ctx \<Rightarrow> ctx) \<Rightarrow> 'sim state \<Rightarrow> 'sim state" where
  "on_ctxt method s = s\<lparr>ctxt := method (ctxt s)\<rparr>"

definition simulation_step :: "'sim sim_api \<Rightarrow> 'sim state \<Rightarrow> 'sim state" where
  "simulation_step sim s = s\<lparr>simulation := step sim (simulation s)\<rparr>"

definition requestAnimationFrame :: "callback \<Rightarrow> 'sim state \<Rightarrow> 'sim state" where
  "requestAnimationFrame cb s =
     s\<lparr>animation_frame_requests := animation_frame_requests s @ [cb]\<rparr>"

text \<open>
  \<^verbatim>\<open>function redraw()\<close>, lines 117 to 144: its body, one entry for each statement,
  and the function.
\<close>

definition redraw_body :: "'sim sim_api \<Rightarrow> ('sim state \<Rightarrow> 'sim state) list" where
  "redraw_body sim =
     [\<lambda>s. on_ctxt (clearRect 0 0 (viewportWidth s) (viewportHeight s)) s,
      simulation_step sim,
      \<lambda>s. on_ctxt (\<lambda>this. snd (redraw_foods (viewportWidth s) (viewportHeight s)
                                 (foods (world sim (simulation s))) this)) s,
      \<lambda>s. on_ctxt (\<lambda>this. snd (redraw_animals (viewportWidth s) (viewportHeight s)
                                 (animals (world sim (simulation s))) this)) s,
      requestAnimationFrame Redraw]"

definition redraw :: "'sim sim_api \<Rightarrow> 'sim state \<Rightarrow> 'sim state" where
  "redraw sim = statements (redraw_body sim)"

text \<open>
  The states a block of statements passes through: the state after the first statement,
  after the second, and so on to the state after the last.
\<close>

fun states_after :: "('s \<Rightarrow> 's) list \<Rightarrow> 's \<Rightarrow> 's list" where
  "states_after [] s = []"
| "states_after (stmt # stmts) s = stmt s # states_after stmts (stmt s)"

section \<open>The script from its first line to its last\<close>

text \<open>
  Lines 3 to 69. Reading a property of \<^verbatim>\<open>null\<close> or calling a method on it raises a
  \<^verbatim>\<open>TypeError\<close>, which nothing in the script catches: it is the result. The constant
  \<^verbatim>\<open>world\<close> of line 9 is bound and never read.
\<close>

definition page_setup :: "host \<Rightarrow> 'sim sim_api \<Rightarrow> error + 'sim state" where
  "page_setup page sim =
     (let simulation0 = new_Simulation sim in
      (case getElementById page ''train'' of
         None \<Rightarrow> Inl (TypeError Train_onclick)
       | Some train0 \<Rightarrow>
          (let train1 = train0\<lparr>onclick := Some Log_train\<rparr>;
               world0 = world sim simulation0
           in
           (case getElementById page ''viewport'' of
              None \<Rightarrow> Inl (TypeError Viewport_getContext)
            | Some viewport0 \<Rightarrow>
               (let ctxt0 = getContext_2d page viewport0;
                    viewportWidth0 = real (width viewport0);
                    viewportHeight0 = real (height viewport0);
                    viewportScale0 = or_number (devicePixelRatio page) 1;
                    viewport1 = set_width (viewportWidth0 * viewportScale0) viewport0;
                    viewport2 = set_height (viewportHeight0 * viewportScale0) viewport1;
                    viewport3 = viewport2\<lparr>style_width :=
                                  number_toString page viewportWidth0 @ ''px''\<rparr>;
                    viewport4 = viewport3\<lparr>style_height :=
                                  number_toString page viewportHeight0 @ ''px''\<rparr>
                in
                (case ctxt0 of
                   None \<Rightarrow> Inl (TypeError Ctxt_scale)
                 | Some this \<Rightarrow>
                     Inr \<lparr>simulation = simulation0,
                          train_element = train1,
                          viewport = viewport4,
                          ctxt = scale viewportScale0 viewportScale0 this,
                          viewportWidth = viewportWidth0,
                          viewportHeight = viewportHeight0,
                          viewportScale = viewportScale0,
                          console = [],
                          animation_frame_requests = []\<rparr>))))))"

text \<open>The whole script: lines 3 to 69, then the call \<^verbatim>\<open>redraw()\<close> of line 148.\<close>

definition main :: "host \<Rightarrow> 'sim sim_api \<Rightarrow> error + 'sim state" where
  "main page sim =
     (case page_setup page sim of
        Inl e \<Rightarrow> Inl e
      | Inr s \<Rightarrow> Inr (redraw sim s))"

section \<open>What the browser does after the script has run\<close>

text \<open>The body of the click handler, line 6.\<close>

definition log_train :: "'sim sim_api \<Rightarrow> 'sim state \<Rightarrow> 'sim state" where
  "log_train sim s =
     (case train sim (simulation s) of
        (summary, simulation1) \<Rightarrow>
          s\<lparr>simulation := simulation1, console := console s @ [summary]\<rparr>)"

fun run_handler :: "'sim sim_api \<Rightarrow> handler \<Rightarrow> 'sim state \<Rightarrow> 'sim state" where
  "run_handler sim Log_train = log_train sim"

fun run_callback :: "'sim sim_api \<Rightarrow> callback \<Rightarrow> 'sim state \<Rightarrow> 'sim state" where
  "run_callback sim Redraw = redraw sim"

text \<open>
  One step of the page: the oldest waiting animation-frame callback is taken from the
  queue and fires, or the element \<^verbatim>\<open>train\<close> is clicked and its handler runs.
\<close>

inductive browser_step :: "'sim sim_api \<Rightarrow> 'sim state \<Rightarrow> 'sim state \<Rightarrow> bool"
  for sim :: "'sim sim_api" where
  animation_frame:
    "animation_frame_requests s = cb # waiting \<Longrightarrow>
     browser_step sim s (run_callback sim cb (s\<lparr>animation_frame_requests := waiting\<rparr>))"
| click:
    "onclick (train_element s) = Some h \<Longrightarrow>
     browser_step sim s (run_handler sim h s)"

code_pred browser_step .

section \<open>Concrete objects\<close>

text \<open>A context on which nothing has been drawn, with the colours a fresh context has.\<close>

definition blank_ctx :: ctx where
  "blank_ctx = \<lparr>calls = [], fillStyle = ''#000000'', strokeStyle = ''#000000''\<rparr>"

text \<open>A natural number in decimal digits, as JavaScript prints an integer.\<close>

fun decimal :: "nat \<Rightarrow> string" where
  "decimal n =
     (if n < 10 then [''0123456789'' ! n]
      else decimal (n div 10) @ [''0123456789'' ! (n mod 10)])"

text \<open>
  A page with a button \<^verbatim>\<open>train\<close> and a canvas \<^verbatim>\<open>viewport\<close> of 300 by 150
  pixels on a display with two physical pixels to the pixel.
\<close>

definition example_button :: element where
  "example_button =
     \<lparr>onclick = None, width_attribute = None, height_attribute = None,
      style_width = [], style_height = []\<rparr>"

definition example_canvas :: element where
  "example_canvas =
     \<lparr>onclick = None, width_attribute = Some 300, height_attribute = Some 150,
      style_width = [], style_height = []\<rparr>"

definition example_page :: host where
  "example_page =
     \<lparr>getElementById = [''train'' \<mapsto> example_button, ''viewport'' \<mapsto> example_canvas],
      getContext_2d = (\<lambda>e. Some blank_ctx),
      devicePixelRatio = Number 2,
      number_toString = (\<lambda>r. decimal (nat \<lfloor>r\<rfloor>))\<rparr>"

text \<open>
  A simulation whose state counts the steps taken: one food, and one animal that moves
  to the right with every step.
\<close>

definition example_sim :: "nat sim_api" where
  "example_sim =
     \<lparr>new_Simulation = 0,
      train = (\<lambda>n. (''generation'', 0)),
      world = (\<lambda>n. \<lparr>foods = [\<lparr>food_x = 1 / 2, food_y = 1 / 4\<rparr>],
                     animals = [\<lparr>animal_x = real n / 4, animal_y = 1 / 2,
                                 animal_rotation = 0\<rparr>]\<rparr>),
      step = Suc\<rparr>"

text \<open>The state that lines 3 to 69 reach on that page with that simulation.\<close>

definition example_state :: "nat state" where
  "example_state =
     \<lparr>simulation = 0,
      train_element = example_button\<lparr>onclick := Some Log_train\<rparr>,
      viewport = example_canvas\<lparr>width_attribute := Some 600, height_attribute := Some 300,
                   style_width := ''300px'', style_height := ''150px''\<rparr>,
      ctxt = blank_ctx\<lparr>calls := [Scale 2 2]\<rparr>,
      viewportWidth = 300,
      viewportHeight = 150,
      viewportScale = 2,
      console = [],
      animation_frame_requests = []\<rparr>"

text \<open>
  The same page in a browser that does not know \<^verbatim>\<open>devicePixelRatio\<close>, and the state
  that lines 3 to 69 reach on it.
\<close>

definition example_page_without_ratio :: host where
  "example_page_without_ratio = example_page\<lparr>devicePixelRatio := Undefined\<rparr>"

definition example_state_without_ratio :: "nat state" where
  "example_state_without_ratio =
     \<lparr>simulation = 0,
      train_element = example_button\<lparr>onclick := Some Log_train\<rparr>,
      viewport = example_canvas\<lparr>style_width := ''300px'', style_height := ''150px''\<rparr>,
      ctxt = blank_ctx\<lparr>calls := [Scale 1 1]\<rparr>,
      viewportWidth = 300,
      viewportHeight = 150,
      viewportScale = 1,
      console = [],
      animation_frame_requests = []\<rparr>"




declare decimal.simps [simp del]

section \<open>Facts about the drawing helpers\<close>

lemmas ctx_method_defs =
  call_def beginPath_def moveTo_def lineTo_def arc_def stroke_def fill_def clearRect_def
  scale_def set_fillStyle_def statements_def

lemma drawTriangle_calls:
  "calls (drawTriangle x y size' rotation this) =
     calls this @
     [BeginPath,
      MoveTo (x - sin rotation * size' * 1.5) (y + cos rotation * size' * 1.5),
      LineTo (x - sin (rotation + 2.0 / 3.0 * pi) * size')
             (y + cos (rotation + 2.0 / 3.0 * pi) * size'),
      LineTo (x - sin (rotation + 4.0 / 3.0 * pi) * size')
             (y + cos (rotation + 4.0 / 3.0 * pi) * size'),
      LineTo (x - sin rotation * size' * 1.5) (y + cos rotation * size' * 1.5),
      Stroke,
      Set_fillStyle ''rgb(255, 255, 255)'',
      Fill]"
  by (simp add: drawTriangle_def ctx_method_defs)

lemma drawCircle_calls:
  "calls (drawCircle x y radius this) =
     calls this @
     [BeginPath, Arc x y radius 0 (2.0 * pi), Set_fillStyle ''rgb(0, 255, 128)'', Fill]"
  by (simp add: drawCircle_def ctx_method_defs)

lemma drawTriangle_fillStyle:
  "fillStyle (drawTriangle x y size' rotation this) = ''rgb(255, 255, 255)''"
  by (simp add: drawTriangle_def ctx_method_defs)

lemma drawCircle_fillStyle:
  "fillStyle (drawCircle x y radius this) = ''rgb(0, 255, 128)''"
  by (simp add: drawCircle_def ctx_method_defs)

lemma drawTriangle_effect:
  "drawTriangle x y size' rotation this =
     this\<lparr>calls := calls (drawTriangle x y size' rotation this),
          fillStyle := ''rgb(255, 255, 255)''\<rparr>"
  by (simp add: drawTriangle_def ctx_method_defs)

lemma drawCircle_effect:
  "drawCircle x y radius this =
     this\<lparr>calls := calls (drawCircle x y radius this),
          fillStyle := ''rgb(0, 255, 128)''\<rparr>"
  by (simp add: drawCircle_def ctx_method_defs)

text \<open>
  Claim C3. For every \<open>x\<close>, \<open>y\<close>, \<open>size\<close> and \<open>rotation\<close>, \<open>drawTriangle\<close> begins a
  path, moves to \<open>(x - sin rotation * size * 1.5, y + cos rotation * size * 1.5)\<close>, draws
  lines to the vertices at the angles \<open>rotation + 2\<pi>/3\<close> and \<open>rotation + 4\<pi>/3\<close> at
  distance \<open>size\<close> around \<open>(x, y)\<close>, and then back to the first vertex; it strokes and
  fills that path. Nothing else is sent to the context.
\<close>

theorem drawTriangle_traces_vertices:
  "calls (drawTriangle x y size' rotation this) =
     calls this @
     [BeginPath,
      MoveTo (x - sin rotation * size' * 1.5) (y + cos rotation * size' * 1.5),
      LineTo (x - sin (rotation + 2 * pi / 3) * size')
             (y + cos (rotation + 2 * pi / 3) * size'),
      LineTo (x - sin (rotation + 4 * pi / 3) * size')
             (y + cos (rotation + 4 * pi / 3) * size'),
      LineTo (x - sin rotation * size' * 1.5) (y + cos rotation * size' * 1.5),
      Stroke,
      Set_fillStyle ''rgb(255, 255, 255)'',
      Fill]"
  by (simp add: drawTriangle_calls)

text \<open>
  Claim C9. The path that \<open>drawTriangle\<close> traces is closed: for every \<open>x\<close>, \<open>y\<close>,
  \<open>size\<close> and \<open>rotation\<close>, the last \<open>lineTo\<close> goes to exactly the point of the
  initial \<open>moveTo\<close>.
\<close>

theorem drawTriangle_path_closed:
  "\<exists>px py qx qy rx ry.
     calls (drawTriangle x y size' rotation this) =
       calls this @
       [BeginPath, MoveTo px py, LineTo qx qy, LineTo rx ry, LineTo px py,
        Stroke, Set_fillStyle ''rgb(255, 255, 255)'', Fill]"
  unfolding drawTriangle_calls by blast

text \<open>
  Claim C10. Whatever \<open>fillStyle\<close> was before the call, after \<open>drawTriangle\<close> it is
  \<open>rgb(255, 255, 255)\<close> and after \<open>drawCircle\<close> it is \<open>rgb(0, 255, 128)\<close>; in both
  helpers the assignment is the last thing the context receives before \<open>fill()\<close>.
\<close>

theorem helpers_set_fillStyle_before_fill:
  "fillStyle (drawTriangle x y size' rotation this) = ''rgb(255, 255, 255)'' \<and>
   fillStyle (drawCircle x y radius this') = ''rgb(0, 255, 128)'' \<and>
   (\<exists>before. calls (drawTriangle x y size' rotation this) =
        before @ [Set_fillStyle ''rgb(255, 255, 255)'', Fill]) \<and>
   (\<exists>before. calls (drawCircle x y radius this') =
        before @ [Set_fillStyle ''rgb(0, 255, 128)'', Fill])"
proof (intro conjI)
  show "fillStyle (drawTriangle x y size' rotation this) = ''rgb(255, 255, 255)''"
    by (rule drawTriangle_fillStyle)
  show "fillStyle (drawCircle x y radius this') = ''rgb(0, 255, 128)''"
    by (rule drawCircle_fillStyle)
  show "\<exists>before. calls (drawTriangle x y size' rotation this) =
          before @ [Set_fillStyle ''rgb(255, 255, 255)'', Fill]"
    unfolding drawTriangle_calls by (intro exI[of _ "calls this @ [_, _, _, _, _, _]"]) simp
  show "\<exists>before. calls (drawCircle x y radius this') =
          before @ [Set_fillStyle ''rgb(0, 255, 128)'', Fill]"
    unfolding drawCircle_calls by (intro exI[of _ "calls this' @ [_, _]"]) simp
qed

text \<open>
  Claim C5, as stated: a call of \<open>drawTriangle\<close> or \<open>drawCircle\<close> leaves every property
  of the context, \<open>fillStyle\<close> among them, as it was. This fails on a fresh context,
  whose \<open>fillStyle\<close> is \<open>#000000\<close> before the call and the helper's colour after it.
\<close>

theorem helpers_change_fillStyle:
  "fillStyle (drawTriangle 0 0 1 0 blank_ctx) \<noteq> fillStyle blank_ctx \<and>
   fillStyle (drawCircle 0 0 1 blank_ctx) \<noteq> fillStyle blank_ctx"
  by (simp add: drawTriangle_fillStyle drawCircle_fillStyle blank_ctx_def)

text \<open>
  Claim C5, amended. The helpers keep no state of their own: on every context, a call adds
  the calls it would add to a blank context, which depend on the arguments alone, and
  leaves \<open>fillStyle\<close> at the helper's own colour; \<open>strokeStyle\<close> and every other
  property of the context are as before the call.
\<close>

theorem helpers_change_only_calls_and_fillStyle:
  "drawTriangle x y size' rotation this =
     this\<lparr>calls := calls this @ calls (drawTriangle x y size' rotation blank_ctx),
          fillStyle := ''rgb(255, 255, 255)''\<rparr> \<and>
   drawCircle x y radius this =
     this\<lparr>calls := calls this @ calls (drawCircle x y radius blank_ctx),
          fillStyle := ''rgb(0, 255, 128)''\<rparr>"
proof
  have "calls (drawTriangle x y size' rotation this) =
          calls this @ calls (drawTriangle x y size' rotation blank_ctx)"
    by (simp add: drawTriangle_calls blank_ctx_def)
  then show "drawTriangle x y size' rotation this =
     this\<lparr>calls := calls this @ calls (drawTriangle x y size' rotation blank_ctx),
          fillStyle := ''rgb(255, 255, 255)''\<rparr>"
    using drawTriangle_effect [of x y size' rotation this] by simp
  have "calls (drawCircle x y radius this) =
          calls this @ calls (drawCircle x y radius blank_ctx)"
    by (simp add: drawCircle_calls blank_ctx_def)
  then show "drawCircle x y radius this =
     this\<lparr>calls := calls this @ calls (drawCircle x y radius blank_ctx),
          fillStyle := ''rgb(0, 255, 128)''\<rparr>"
    using drawCircle_effect [of x y radius this] by simp
qed

section \<open>Facts about the render loop\<close>

lemma for_of_fst:
  assumes "\<And>v s. fst (body v s) = v"
  shows "fst (for_of body vs s) = vs"
proof (induction vs arbitrary: s)
  case Nil
  show ?case by simp
next
  case (Cons v vs)
  have "fst (body v s) = v" by (rule assms)
  moreover have "fst (for_of body vs (snd (body v s))) = vs" by (rule Cons.IH)
  ultimately show ?case by (simp add: case_prod_beta)
qed

lemma for_of_snd:
  "snd (for_of (\<lambda>v s. (v, f v s)) vs s) = fold f vs s"
  by (induction vs arbitrary: s) (simp_all add: case_prod_beta)

lemma redraw_foods_snd:
  "snd (redraw_foods w h fs this) =
     fold (\<lambda>food. drawCircle (food_x food * w) (food_y food * h) ((0.01 / 2.0) * w)) fs this"
  unfolding redraw_foods_def by (rule for_of_snd)

lemma redraw_animals_snd:
  "snd (redraw_animals w h as this) =
     fold (\<lambda>animal. drawTriangle (animal_x animal * w) (animal_y animal * h) (0.01 * w)
                       (animal_rotation animal)) as this"
  unfolding redraw_animals_def by (rule for_of_snd)

lemma redraw_foods_fst: "fst (redraw_foods w h fs this) = fs"
  unfolding redraw_foods_def by (rule for_of_fst) simp

lemma redraw_animals_fst: "fst (redraw_animals w h as this) = as"
  unfolding redraw_animals_def by (rule for_of_fst) simp

lemma redraw_eq:
  "redraw sim s =
     s\<lparr>simulation := step sim (simulation s),
       ctxt :=
         fold (\<lambda>animal. drawTriangle
                 (animal_x animal * viewportWidth s)
                 (animal_y animal * viewportHeight s)
                 (0.01 * viewportWidth s)
                 (animal_rotation animal))
           (animals (world sim (step sim (simulation s))))
           (fold (\<lambda>food. drawCircle
                   (food_x food * viewportWidth s)
                   (food_y food * viewportHeight s)
                   ((0.01 / 2.0) * viewportWidth s))
             (foods (world sim (step sim (simulation s))))
             (clearRect 0 0 (viewportWidth s) (viewportHeight s) (ctxt s))),
       animation_frame_requests := animation_frame_requests s @ [Redraw]\<rparr>"
  by (simp add: redraw_def redraw_body_def statements_def on_ctxt_def simulation_step_def
      requestAnimationFrame_def redraw_foods_snd redraw_animals_snd)

lemma statements_last: "statements stmts s = last (s # states_after stmts s)"
  unfolding statements_def by (induction stmts arbitrary: s) simp_all

lemma redraw_states:
  "states_after (redraw_body sim) s =
     (let cleared = s\<lparr>ctxt := clearRect 0 0 (viewportWidth s) (viewportHeight s) (ctxt s)\<rparr>;
          stepped = cleared\<lparr>simulation := step sim (simulation cleared)\<rparr>;
          foods_drawn = stepped\<lparr>ctxt :=
            fold (\<lambda>food. drawCircle
                    (food_x food * viewportWidth s)
                    (food_y food * viewportHeight s)
                    ((0.01 / 2.0) * viewportWidth s))
              (foods (world sim (simulation stepped))) (ctxt stepped)\<rparr>;
          animals_drawn = foods_drawn\<lparr>ctxt :=
            fold (\<lambda>animal. drawTriangle
                    (animal_x animal * viewportWidth s)
                    (animal_y animal * viewportHeight s)
                    (0.01 * viewportWidth s)
                    (animal_rotation animal))
              (animals (world sim (simulation foods_drawn))) (ctxt foods_drawn)\<rparr>;
          requested = animals_drawn\<lparr>animation_frame_requests :=
            animation_frame_requests animals_drawn @ [Redraw]\<rparr>
      in [cleared, stepped, foods_drawn, animals_drawn, requested])"
  by (simp add: redraw_body_def on_ctxt_def simulation_step_def requestAnimationFrame_def
      redraw_foods_snd redraw_animals_snd Let_def)

text \<open>
  Claim C2. Every invocation of \<open>redraw\<close> performs, in this order: it clears the
  rectangle \<open>(0, 0, viewportWidth, viewportHeight)\<close>; it steps the simulation, exactly
  once; for every food of the world that the simulation then reports, in the order of the
  list, it draws a circle centred at \<open>(food.x * viewportWidth, food.y * viewportHeight)\<close>
  with radius \<open>(0.01 / 2.0) * viewportWidth\<close>; and for every animal of that world it
  draws a triangle at \<open>(animal.x * viewportWidth, animal.y * viewportHeight)\<close> with size
  \<open>0.01 * viewportWidth\<close> and rotation \<open>animal.rotation\<close>. The first part gives the
  states the body passes through, statement by statement, the last of which is the
  result; the second part gives the result in terms of the state before the call.
\<close>

theorem redraw_clears_steps_draws:
  "states_after (redraw_body sim) s =
     (let cleared = s\<lparr>ctxt := clearRect 0 0 (viewportWidth s) (viewportHeight s) (ctxt s)\<rparr>;
          stepped = cleared\<lparr>simulation := step sim (simulation cleared)\<rparr>;
          foods_drawn = stepped\<lparr>ctxt :=
            fold (\<lambda>food. drawCircle
                    (food_x food * viewportWidth s)
                    (food_y food * viewportHeight s)
                    ((0.01 / 2.0) * viewportWidth s))
              (foods (world sim (simulation stepped))) (ctxt stepped)\<rparr>;
          animals_drawn = foods_drawn\<lparr>ctxt :=
            fold (\<lambda>animal. drawTriangle
                    (animal_x animal * viewportWidth s)
                    (animal_y animal * viewportHeight s)
                    (0.01 * viewportWidth s)
                    (animal_rotation animal))
              (animals (world sim (simulation foods_drawn))) (ctxt foods_drawn)\<rparr>;
          requested = animals_drawn\<lparr>animation_frame_requests :=
            animation_frame_requests animals_drawn @ [Redraw]\<rparr>
      in [cleared, stepped, foods_drawn, animals_drawn, requested]) \<and>
   redraw sim s = last (states_after (redraw_body sim) s) \<and>
   redraw sim s =
     s\<lparr>simulation := step sim (simulation s),
       ctxt :=
         fold (\<lambda>animal. drawTriangle
                 (animal_x animal * viewportWidth s)
                 (animal_y animal * viewportHeight s)
                 (0.01 * viewportWidth s)
                 (animal_rotation animal))
           (animals (world sim (step sim (simulation s))))
           (fold (\<lambda>food. drawCircle
                   (food_x food * viewportWidth s)
                   (food_y food * viewportHeight s)
                   ((0.01 / 2.0) * viewportWidth s))
             (foods (world sim (step sim (simulation s))))
             (clearRect 0 0 (viewportWidth s) (viewportHeight s) (ctxt s))),
       animation_frame_requests := animation_frame_requests s @ [Redraw]\<rparr>"
proof (intro conjI)
  show "redraw sim s = last (states_after (redraw_body sim) s)"
    by (simp add: redraw_def statements_last redraw_body_def)
qed (rule redraw_states, rule redraw_eq)

text \<open>
  The first frame of the example: the simulation has taken one step, and the context has
  received the clear, the circle of the food at \<open>(150, 37.5)\<close> and the triangle of the
  animal at \<open>(75, 75)\<close>.
\<close>

theorem redraw_clears_steps_draws_witness:
  "simulation (redraw example_sim example_state) = 1 \<and>
   calls (ctxt (redraw example_sim example_state)) =
     [Scale 2 2,
      ClearRect 0 0 300 150,
      BeginPath, Arc 150 37.5 1.5 0 (2 * pi), Set_fillStyle ''rgb(0, 255, 128)'', Fill,
      BeginPath,
      MoveTo 75 79.5,
      LineTo (75 - sin (2 * pi / 3) * 3) (75 + cos (2 * pi / 3) * 3),
      LineTo (75 - sin (4 * pi / 3) * 3) (75 + cos (4 * pi / 3) * 3),
      LineTo 75 79.5,
      Stroke, Set_fillStyle ''rgb(255, 255, 255)'', Fill]"
  using redraw_clears_steps_draws [of example_sim example_state]
  by (simp only: Let_def)
     (simp add: example_sim_def example_state_def blank_ctx_def clearRect_def call_def
      drawCircle_calls drawTriangle_calls)

text \<open>
  Claim C7. The loops of \<open>redraw\<close> hand every snapshot back as they received it, so no
  field of a food or an animal is written; and what they draw depends on \<open>x\<close> and \<open>y\<close>
  of each food and on \<open>x\<close>, \<open>y\<close> and \<open>rotation\<close> of each animal only: two lists of
  snapshots that agree on these fields, whatever other fields they carry, give the same
  drawing.
\<close>

theorem redraw_loops_read_only:
  fixes fs :: "'f food_scheme list" and fs' :: "'g food_scheme list"
    and as :: "'a animal_scheme list" and as' :: "'b animal_scheme list"
  shows
  "fst (redraw_foods w h fs this) = fs \<and>
   fst (redraw_animals w h as this) = as \<and>
   (map (\<lambda>food. (food_x food, food_y food)) fs =
    map (\<lambda>food. (food_x food, food_y food)) fs' \<longrightarrow>
      snd (redraw_foods w h fs this) = snd (redraw_foods w h fs' this)) \<and>
   (map (\<lambda>animal. (animal_x animal, animal_y animal, animal_rotation animal)) as =
    map (\<lambda>animal. (animal_x animal, animal_y animal, animal_rotation animal)) as' \<longrightarrow>
      snd (redraw_animals w h as this) = snd (redraw_animals w h as' this))"
proof (intro conjI impI)
  show "fst (redraw_foods w h fs this) = fs" by (rule redraw_foods_fst)
  show "fst (redraw_animals w h as this) = as" by (rule redraw_animals_fst)
next
  let ?g = "\<lambda>p. drawCircle (fst p * w) (snd p * h) ((0.01 / 2.0) * w)"
  have *: "snd (redraw_foods w h xs this) =
             fold ?g (map (\<lambda>food. (food_x food, food_y food)) xs) this"
    for xs :: "'x food_scheme list"
    by (simp add: redraw_foods_snd fold_map comp_def)
  assume "map (\<lambda>food. (food_x food, food_y food)) fs =
          map (\<lambda>food. (food_x food, food_y food)) fs'"
  then show "snd (redraw_foods w h fs this) = snd (redraw_foods w h fs' this)"
    by (simp only: *)
next
  let ?g = "\<lambda>p. drawTriangle (fst p * w) (fst (snd p) * h) (0.01 * w) (snd (snd p))"
  have *: "snd (redraw_animals w h xs this) =
             fold ?g (map (\<lambda>animal. (animal_x animal, animal_y animal,
                                        animal_rotation animal)) xs) this"
    for xs :: "'x animal_scheme list"
    by (simp add: redraw_animals_snd fold_map comp_def)
  assume "map (\<lambda>animal. (animal_x animal, animal_y animal, animal_rotation animal)) as =
          map (\<lambda>animal. (animal_x animal, animal_y animal, animal_rotation animal)) as'"
  then show "snd (redraw_animals w h as this) = snd (redraw_animals w h as' this)"
    by (simp only: *)
qed

text \<open>
  A food and an animal, each beside a snapshot with the same coordinates and one more
  field: the drawings are the same.
\<close>

theorem redraw_loops_read_only_witness:
  "map (\<lambda>food. (food_x food, food_y food)) [\<lparr>food_x = 1 / 2, food_y = 1 / 4\<rparr>] =
   map (\<lambda>food. (food_x food, food_y food))
     [\<lparr>food_x = 1 / 2, food_y = 1 / 4, \<dots> = ''apple''\<rparr>] \<and>
   snd (redraw_foods 300 150 [\<lparr>food_x = 1 / 2, food_y = 1 / 4\<rparr>] blank_ctx) =
   snd (redraw_foods 300 150 [\<lparr>food_x = 1 / 2, food_y = 1 / 4, \<dots> = ''apple''\<rparr>]
          blank_ctx) \<and>
   map (\<lambda>animal. (animal_x animal, animal_y animal, animal_rotation animal))
     [\<lparr>animal_x = 1 / 4, animal_y = 1 / 2, animal_rotation = 0\<rparr>] =
   map (\<lambda>animal. (animal_x animal, animal_y animal, animal_rotation animal))
     [\<lparr>animal_x = 1 / 4, animal_y = 1 / 2, animal_rotation = 0, \<dots> = (7::nat)\<rparr>] \<and>
   snd (redraw_animals 300 150
          [\<lparr>animal_x = 1 / 4, animal_y = 1 / 2, animal_rotation = 0\<rparr>] blank_ctx) =
   snd (redraw_animals 300 150
          [\<lparr>animal_x = 1 / 4, animal_y = 1 / 2, animal_rotation = 0, \<dots> = (7::nat)\<rparr>]
          blank_ctx)"
  using redraw_loops_read_only
          [of 300 150 "[\<lparr>food_x = 1 / 2, food_y = 1 / 4\<rparr>]" blank_ctx
              "[\<lparr>animal_x = 1 / 4, animal_y = 1 / 2, animal_rotation = 0\<rparr>]"
              "[\<lparr>food_x = 1 / 2, food_y = 1 / 4, \<dots> = ''apple''\<rparr>]"
              "[\<lparr>animal_x = 1 / 4, animal_y = 1 / 2, animal_rotation = 0, \<dots> = (7::nat)\<rparr>]"]
  by simp

section \<open>Facts about the script as a whole\<close>

lemma or_number_1_nonzero: "or_number v 1 \<noteq> 0"
  by (cases v) simp_all

lemma or_number_falsy: "\<not> truthy v \<Longrightarrow> or_number v d = d"
  by (cases v) simp_all

lemma reflected_le: "reflected 300 a \<le> 2147483647" "reflected 150 a \<le> 2147483647"
  by (simp_all add: reflected_def split: option.splits)

lemma width_le: "width e \<le> 2147483647"
  unfolding width_def by (rule reflected_le)

lemma height_le: "height e \<le> 2147483647"
  unfolding height_def by (rule reflected_le)

lemma to_unsigned_long_floor:
  assumes "0 \<le> p" and "p < 2 ^ 32"
  shows "to_unsigned_long p = nat \<lfloor>p\<rfloor>"
proof -
  from assms(1) have "0 \<le> \<lfloor>p\<rfloor>" by simp
  moreover from assms(2) have "\<lfloor>p\<rfloor> < 2 ^ 32" by (simp add: floor_less_iff)
  ultimately have "\<lfloor>p\<rfloor> mod 2 ^ 32 = \<lfloor>p\<rfloor>" by simp
  with assms(1) show ?thesis by (simp add: to_unsigned_long_def)
qed


lemma reflected_reflect_positive:
  assumes "1 \<le> p" and "p < 2 ^ 32" and "0 < d"
  shows "0 < reflected d (reflect d (to_unsigned_long p))"
proof -
  from assms have "to_unsigned_long p = nat \<lfloor>p\<rfloor>"
    by (intro to_unsigned_long_floor) simp_all
  moreover from assms(1) have "1 \<le> \<lfloor>p\<rfloor>" by (simp add: le_floor_iff)
  then have "0 < nat \<lfloor>p\<rfloor>" by simp
  ultimately show ?thesis using assms(3) by (simp add: reflected_def reflect_def)
qed

lemma page_setup_Inr:
  assumes "page_setup page sim = Inr s"
  obtains train0 viewport0 this where
    "getElementById page ''train'' = Some train0"
    "getElementById page ''viewport'' = Some viewport0"
    "getContext_2d page viewport0 = Some this"
    "s = \<lparr>simulation = new_Simulation sim,
          train_element = train0\<lparr>onclick := Some Log_train\<rparr>,
          viewport =
            (set_height (real (height viewport0) * or_number (devicePixelRatio page) 1)
              (set_width (real (width viewport0) * or_number (devicePixelRatio page) 1)
                 viewport0))
            \<lparr>style_width := number_toString page (real (width viewport0)) @ ''px'',
             style_height := number_toString page (real (height viewport0)) @ ''px''\<rparr>,
          ctxt = scale (or_number (devicePixelRatio page) 1)
                   (or_number (devicePixelRatio page) 1) this,
          viewportWidth = real (width viewport0),
          viewportHeight = real (height viewport0),
          viewportScale = or_number (devicePixelRatio page) 1,
          console = [],
          animation_frame_requests = []\<rparr>"
  using assms
  by (auto simp add: page_setup_def Let_def split: option.splits)

lemma page_setup_sizes:
  assumes "page_setup page sim = Inr s"
  obtains viewport0 where
    "getElementById page ''viewport'' = Some viewport0"
    "viewportScale s = or_number (devicePixelRatio page) 1"
    "width (viewport s) =
       reflected 300 (reflect 300 (to_unsigned_long (real (width viewport0) * viewportScale s)))"
    "height (viewport s) =
       reflected 150 (reflect 150 (to_unsigned_long (real (height viewport0) * viewportScale s)))"
    "style_width (viewport s) = number_toString page (real (width viewport0)) @ ''px''"
    "style_height (viewport s) = number_toString page (real (height viewport0)) @ ''px''"
  using assms
  by (rule page_setup_Inr)
     (simp add: width_def height_def set_width_def set_height_def)

lemma page_setup_succeeds:
  assumes "getElementById page ''train'' = Some train0"
      and "getElementById page ''viewport'' = Some viewport0"
      and "getContext_2d page viewport0 = Some this"
  shows "\<exists>s. page_setup page sim = Inr s"
  using assms by (simp add: page_setup_def Let_def)

lemma decimal_300: "decimal 300 = ''300''"
  by code_simp

lemma decimal_150: "decimal 150 = ''150''"
  by code_simp


lemmas canvas_property_defs =
  width_def height_def set_width_def set_height_def reflected_def reflect_def
  to_unsigned_long_def

lemma example_setup: "page_setup example_page example_sim = Inr example_state"
  by (simp add: page_setup_def example_page_def example_sim_def example_state_def
      example_canvas_def example_button_def blank_ctx_def scale_def call_def
      canvas_property_defs decimal_300 decimal_150)

lemma example_setup_without_ratio:
  "page_setup example_page_without_ratio example_sim = Inr example_state_without_ratio"
  by (simp add: page_setup_def example_page_without_ratio_def example_page_def
      example_sim_def example_state_without_ratio_def
      example_canvas_def example_button_def blank_ctx_def scale_def call_def
      canvas_property_defs decimal_300 decimal_150)





text \<open>
  Claim C8. \<open>viewportScale\<close> is a number and never zero. When
  \<^verbatim>\<open>window.devicePixelRatio\<close> is falsy (undefined, NaN or zero) the scale is \<open>1\<close>,
  and then a canvas of positive width and height keeps a buffer of positive width and
  height. When the ratio is a positive number it is the scale, and the buffer keeps a
  positive width and height where the products are at least \<open>1\<close> and below \<open>2 ^ 32\<close>.
\<close>

theorem viewportScale_never_zero:
  assumes "page_setup page sim = Inr s"
      and "getElementById page ''viewport'' = Some viewport0"
  shows "viewportScale s = or_number (devicePixelRatio page) 1 \<and>
         viewportScale s \<noteq> 0 \<and>
         (\<not> truthy (devicePixelRatio page) \<longrightarrow>
            viewportScale s = 1 \<and>
            (0 < width viewport0 \<and> 0 < height viewport0 \<longrightarrow>
               0 < width (viewport s) \<and> 0 < height (viewport s))) \<and>
         (\<forall>r. devicePixelRatio page = Number r \<and> 0 < r \<longrightarrow>
            viewportScale s = r \<and>
            (1 \<le> real (width viewport0) * r \<and> real (width viewport0) * r < 2 ^ 32 \<and>
             1 \<le> real (height viewport0) * r \<and> real (height viewport0) * r < 2 ^ 32 \<longrightarrow>
               0 < width (viewport s) \<and> 0 < height (viewport s)))"
proof -
  from assms(1) obtain v where
    v: "getElementById page ''viewport'' = Some v" and
    k: "viewportScale s = or_number (devicePixelRatio page) 1" and
    w: "width (viewport s) =
          reflected 300 (reflect 300 (to_unsigned_long (real (width v) * viewportScale s)))" and
    h: "height (viewport s) =
          reflected 150 (reflect 150 (to_unsigned_long (real (height v) * viewportScale s)))"
    by (rule page_setup_sizes)
  from v assms(2) have [simp]: "v = viewport0" by simp
  have positive:
    "0 < width (viewport s) \<and> 0 < height (viewport s)"
    if "1 \<le> real (width viewport0) * viewportScale s"
       "real (width viewport0) * viewportScale s < 2 ^ 32"
       "1 \<le> real (height viewport0) * viewportScale s"
       "real (height viewport0) * viewportScale s < 2 ^ 32"
    using that w h by (simp add: reflected_reflect_positive)
  have falsy: "0 < width (viewport s) \<and> 0 < height (viewport s)"
    if "viewportScale s = 1" "0 < width viewport0" "0 < height viewport0"
  proof (rule positive)
    from that show "1 \<le> real (width viewport0) * viewportScale s"
      and "1 \<le> real (height viewport0) * viewportScale s" by simp_all
    have "real (width viewport0) \<le> 2147483647" "real (height viewport0) \<le> 2147483647"
      using width_le [of viewport0] height_le [of viewport0] by linarith+
    with that(1) show "real (width viewport0) * viewportScale s < 2 ^ 32"
      and "real (height viewport0) * viewportScale s < 2 ^ 32" by simp_all
  qed
  show ?thesis
    using k positive falsy by (auto simp add: or_number_1_nonzero or_number_falsy)
qed

text \<open>
  The example page in a browser without \<^verbatim>\<open>devicePixelRatio\<close>: the scale is \<open>1\<close> and
  the buffer stays positive. The example page as it is: the scale is \<open>2\<close>.
\<close>

theorem viewportScale_never_zero_witness:
  "page_setup example_page_without_ratio example_sim = Inr example_state_without_ratio \<and>
   viewportScale example_state_without_ratio = 1 \<and>
   0 < width (viewport example_state_without_ratio) \<and>
   0 < height (viewport example_state_without_ratio) \<and>
   viewportScale example_state = 2 \<and>
   0 < width (viewport example_state) \<and> 0 < height (viewport example_state)"
proof -
  have v: "getElementById example_page_without_ratio ''viewport'' = Some example_canvas"
    by (simp add: example_page_without_ratio_def example_page_def)
  from viewportScale_never_zero [OF example_setup_without_ratio v]
  have 1: "viewportScale example_state_without_ratio = 1 \<and>
     0 < width (viewport example_state_without_ratio) \<and>
     0 < height (viewport example_state_without_ratio)"
    by (simp add: example_page_without_ratio_def example_page_def example_canvas_def
        width_def height_def reflected_def)
  have v': "getElementById example_page ''viewport'' = Some example_canvas"
    by (simp add: example_page_def)
  from viewportScale_never_zero [OF example_setup v']
  have 2: "viewportScale example_state = 2 \<and>
     0 < width (viewport example_state) \<and> 0 < height (viewport example_state)"
    by (simp add: example_page_def example_canvas_def width_def height_def reflected_def)
  from 1 2 example_setup_without_ratio show ?thesis by blast
qed




section \<open>Facts about the page after the script\<close>

lemma main_requests:
  assumes "main page sim = Inr s0"
  shows "animation_frame_requests s0 = [Redraw]"
proof -
  from assms obtain s where s: "page_setup page sim = Inr s" and s0: "s0 = redraw sim s"
    by (auto simp add: main_def split: sum.splits)
  from s have "animation_frame_requests s = []"
    by (rule page_setup_Inr) simp
  with s0 show ?thesis by (simp add: redraw_eq)
qed

lemma browser_step_requests:
  assumes "browser_step sim s t" and "animation_frame_requests s = [Redraw]"
  shows "animation_frame_requests t = [Redraw]"
  using assms
proof (cases rule: browser_step.cases)
  case (animation_frame cb waiting)
  with assms(2) have "cb = Redraw" "waiting = []" by simp_all
  with animation_frame show ?thesis by (simp add: redraw_eq)
next
  case (click h)
  then show ?thesis
    using assms(2) by (cases h) (simp add: log_train_def split: prod.splits)
qed

lemma reachable_requests:
  assumes "(browser_step sim)\<^sup>*\<^sup>* s0 s" and "animation_frame_requests s0 = [Redraw]"
  shows "animation_frame_requests s = [Redraw]"
  using assms
  by (induction rule: rtranclp_induct) (auto intro: browser_step_requests)

text \<open>
  Claim C4. The render loop never ends. Every invocation of \<open>redraw\<close> finishes by
  handing \<open>redraw\<close> to \<open>requestAnimationFrame\<close>, and the script ends with one
  invocation of \<open>redraw\<close>; so in every state the page reaches from the end of the
  script, by animation frames firing and by clicks on \<^verbatim>\<open>train\<close>, exactly one
  \<open>redraw\<close> is waiting for the next animation frame, and that frame can fire.
\<close>

theorem render_loop_perpetual:
  "animation_frame_requests (redraw sim s) = animation_frame_requests s @ [Redraw] \<and>
   (main page sim = Inr s0 \<and> (browser_step sim)\<^sup>*\<^sup>* s0 s' \<longrightarrow>
      animation_frame_requests s' = [Redraw] \<and>
      browser_step sim s' (redraw sim (s'\<lparr>animation_frame_requests := []\<rparr>)))"
proof (intro conjI impI)
  show "animation_frame_requests (redraw sim s) = animation_frame_requests s @ [Redraw]"
    by (simp add: redraw_eq)
next
  assume a: "main page sim = Inr s0 \<and> (browser_step sim)\<^sup>*\<^sup>* s0 s'"
  then have "main page sim = Inr s0" by simp
  then have "animation_frame_requests s0 = [Redraw]" by (rule main_requests)
  with a show r: "animation_frame_requests s' = [Redraw]"
    by (blast intro: reachable_requests)
  from browser_step.animation_frame [of s' Redraw "[]" sim] r
  show "browser_step sim s' (redraw sim (s'\<lparr>animation_frame_requests := []\<rparr>))"
    by simp
qed

text \<open>
  The example: the script ends in the state after the first \<open>redraw\<close>, one animation
  frame later the page is in the state after the second, and there a \<open>redraw\<close> is
  waiting again.
\<close>

theorem render_loop_perpetual_witness:
  "main example_page example_sim = Inr (redraw example_sim example_state) \<and>
   (browser_step example_sim)\<^sup>*\<^sup>*
      (redraw example_sim example_state)
      (redraw example_sim
         ((redraw example_sim example_state)\<lparr>animation_frame_requests := []\<rparr>)) \<and>
   animation_frame_requests
      (redraw example_sim
         ((redraw example_sim example_state)\<lparr>animation_frame_requests := []\<rparr>)) = [Redraw]"
proof -
  let ?s0 = "redraw example_sim example_state"
  let ?s1 = "redraw example_sim (?s0\<lparr>animation_frame_requests := []\<rparr>)"
  have m: "main example_page example_sim = Inr ?s0"
    by (simp add: main_def example_setup)
  have "browser_step example_sim ?s0 ?s1"
    using render_loop_perpetual [of example_sim example_state example_page ?s0 ?s0] m
    by simp
  then have r: "(browser_step example_sim)\<^sup>*\<^sup>* ?s0 ?s1" by (rule r_into_rtranclp)
  have "animation_frame_requests ?s1 = [Redraw]"
    using render_loop_perpetual [of example_sim example_state example_page ?s0 ?s1] m r
    by simp
  with m r show ?thesis by simp
qed

end
